theory Spec2Isabelle
  imports Main "HOL-Library.Sublist" "HOL-Library.Word"
begin

section \<open>Strings: the functions of Go's \<open>strings\<close> package that the service calls\<close>

text \<open>
  A Go string is a sequence of bytes, here a \<open>string\<close> (a list of 8-bit characters).
  \<open>strings.TrimSpace\<close> removes leading and trailing white space as Unicode defines it:
  the six ASCII characters tab, line feed, vertical tab, form feed, carriage return and
  space, and the code points U+0085, U+00A0, U+1680, U+2000 to U+200A, U+2028, U+2029,
  U+202F, U+205F and U+3000. \<open>space_runes\<close> lists their UTF-8 encodings; a byte
  sequence that is not one of them (an invalid encoding included) is not white space.
\<close>

definition space_runes :: "string list" where
  "space_runes =
    [[CHR 0x09], [CHR 0x0A], [CHR 0x0B], [CHR 0x0C], [CHR 0x0D], [CHR 0x20],
     [CHR 0xC2, CHR 0x85], [CHR 0xC2, CHR 0xA0],
     [CHR 0xE1, CHR 0x9A, CHR 0x80],
     [CHR 0xE2, CHR 0x80, CHR 0x80], [CHR 0xE2, CHR 0x80, CHR 0x81],
     [CHR 0xE2, CHR 0x80, CHR 0x82], [CHR 0xE2, CHR 0x80, CHR 0x83],
     [CHR 0xE2, CHR 0x80, CHR 0x84], [CHR 0xE2, CHR 0x80, CHR 0x85],
     [CHR 0xE2, CHR 0x80, CHR 0x86], [CHR 0xE2, CHR 0x80, CHR 0x87],
     [CHR 0xE2, CHR 0x80, CHR 0x88], [CHR 0xE2, CHR 0x80, CHR 0x89],
     [CHR 0xE2, CHR 0x80, CHR 0x8A],
     [CHR 0xE2, CHR 0x80, CHR 0xA8], [CHR 0xE2, CHR 0x80, CHR 0xA9],
     [CHR 0xE2, CHR 0x80, CHR 0xAF],
     [CHR 0xE2, CHR 0x81, CHR 0x9F],
     [CHR 0xE3, CHR 0x80, CHR 0x80]]"

text \<open>The leading white space of a string is removed one encoded character at a time.\<close>

function TrimLeft :: "string \<Rightarrow> string" where
  "TrimLeft s =
     (case find (\<lambda>e. prefix e s) space_runes of
        None \<Rightarrow> s
      | Some e \<Rightarrow> TrimLeft (drop (length e) s))"
  by pat_completeness auto
termination
proof (relation "measure length")
  show "wf (measure length)" by simp
next
  fix s e
  assume "find (\<lambda>e. prefix e s) space_runes = Some e"
  then have "e \<in> set space_runes" "prefix e s"
    by (auto simp: find_Some_iff)
  then have "e \<noteq> []" "length e \<le> length s"
    by (auto simp: space_runes_def prefix_length_le)
  then show "(drop (length e) s, s) \<in> measure length"
    by (cases e; cases s) auto
qed

declare TrimLeft.simps [simp del]

function TrimRight :: "string \<Rightarrow> string" where
  "TrimRight s =
     (case find (\<lambda>e. suffix e s) space_runes of
        None \<Rightarrow> s
      | Some e \<Rightarrow> TrimRight (take (length s - length e) s))"
  by pat_completeness auto
termination
proof (relation "measure length")
  show "wf (measure length)" by simp
next
  fix s e
  assume "find (\<lambda>e. suffix e s) space_runes = Some e"
  then have "e \<in> set space_runes" "suffix e s"
    by (auto simp: find_Some_iff)
  then have "e \<noteq> []" "length e \<le> length s"
    by (auto simp: space_runes_def suffix_length_le)
  then show "(take (length s - length e) s, s) \<in> measure length"
    by (cases e; cases s) auto
qed

declare TrimRight.simps [simp del]

definition TrimSpace :: "string \<Rightarrow> string" where
  "TrimSpace s = TrimRight (TrimLeft s)"

definition HasPrefix :: "string \<Rightarrow> string \<Rightarrow> bool" where
  "HasPrefix s p = prefix p s"

definition TrimPrefix :: "string \<Rightarrow> string \<Rightarrow> string" where
  "TrimPrefix s p = (if HasPrefix s p then drop (length p) s else s)"

text \<open>
  \<open>strings.ReplaceAll s old new\<close> replaces the non-overlapping occurrences of \<open>old\<close>,
  found from left to right. The service calls it with the fixed, non-empty pattern
  \<open>[CustomerName]\<close>; Go's special treatment of the empty pattern is not part of this
  model, which leaves the string as it is for an empty \<open>old\<close>.
\<close>

function ReplaceAll :: "string \<Rightarrow> string \<Rightarrow> string \<Rightarrow> string" where
  "ReplaceAll [] old new = []"
| "ReplaceAll (c # cs) old new =
     (if old \<noteq> [] \<and> prefix old (c # cs)
      then new @ ReplaceAll (drop (length old) (c # cs)) old new
      else c # ReplaceAll cs old new)"
  by pat_completeness auto
termination
  by (relation "measure (\<lambda>(s, old, new). length s)") (auto simp: neq_Nil_conv)

section \<open>Calendar dates: what \<open>time.Now\<close>, \<open>AddDate\<close>, \<open>Month\<close> and \<open>Day\<close> give\<close>

record date =
  Year :: int
  Month :: int
  Day :: int

definition is_leap :: "int \<Rightarrow> bool" where
  "is_leap y \<longleftrightarrow> y mod 4 = 0 \<and> (y mod 100 \<noteq> 0 \<or> y mod 400 = 0)"

definition days_in :: "int \<Rightarrow> int \<Rightarrow> int" where
  "days_in y m =
     (if m = 2 then (if is_leap y then 29 else 28)
      else if m = 4 \<or> m = 6 \<or> m = 9 \<or> m = 11 then 30
      else 31)"

definition valid_date :: "date \<Rightarrow> bool" where
  "valid_date t \<longleftrightarrow>
     1 \<le> Month t \<and> Month t \<le> 12 \<and> 1 \<le> Day t \<and> Day t \<le> days_in (Year t) (Month t)"

definition next_day :: "date \<Rightarrow> date" where
  "next_day t =
     (if Day t < days_in (Year t) (Month t) then t\<lparr>Day := Day t + 1\<rparr>
      else if Month t < 12 then t\<lparr>Month := Month t + 1, Day := 1\<rparr>
      else \<lparr>Year = Year t + 1, Month = 1, Day = 1\<rparr>)"

text \<open>
  \<open>t.AddDate(0, 0, d)\<close> for \<open>d \<ge> 0\<close>: the calendar date \<open>d\<close> days after \<open>t\<close>; Go
  normalises a day beyond the end of the month into the following months.
\<close>

definition AddDate_days :: "date \<Rightarrow> nat \<Rightarrow> date" where
  "AddDate_days t d = (next_day ^^ d) t"

section \<open>The data model\<close>

type_synonym uuid = "128 word"

record User =
  UserSalonID :: uuid
  UserIsActive :: bool

record Salon =
  ID :: uuid
  BirthdayReminders :: bool
  AnniversaryReminders :: bool
  WhatsAppNotifications :: bool
  SMSNotifications :: bool

record Customer =
  CustomerSalonID :: uuid
  CustomerIsActive :: bool
  Name :: string
  Phone :: string
  Birthday :: "date option"
  Anniversary :: "date option"

record ReminderTemplate =
  TemplateSalonID :: uuid
  TemplateType :: string
  Message :: string
  TemplateIsActive :: bool

record monthDay =
  M :: int
  D :: int

record CreateMessageParams =
  To :: string
  From :: string
  Body :: string

datatype error =
    DBError
  | ErrRecordNotFound
  | InvalidEventType string
  | InvalidChannel string
  | TwilioNotConfigured
  | WhatsAppNumberNotSet
  | PhoneNumberNotSet
  | GatewayError string
  | NilPointerDereference

section \<open>The data store\<close>

text \<open>
  The four queries the service issues. The tables are lists in primary-key order; a
  query can fail with a persistence error, which \<open>db_fault\<close> decides per query.
\<close>

datatype db_query =
    QueryActiveUsers
  | QuerySalon uuid
  | QueryCustomers uuid string
  | QueryTemplate uuid string

record database =
  users :: "User list"
  salons :: "Salon list"
  customers :: "Customer list"
  reminder_templates :: "ReminderTemplate list"
  db_fault :: "db_query \<Rightarrow> bool"

definition Find_active_users :: "database \<Rightarrow> error + User list" where
  "Find_active_users d =
     (if db_fault d QueryActiveUsers then Inl DBError
      else Inr (filter UserIsActive (users d)))"

definition First_salon :: "database \<Rightarrow> uuid \<Rightarrow> error + Salon" where
  "First_salon d salonID =
     (if db_fault d (QuerySalon salonID) then Inl DBError
      else case find (\<lambda>s. ID s = salonID) (salons d) of
             None \<Rightarrow> Inl ErrRecordNotFound
           | Some s \<Rightarrow> Inr s)"

definition First_template :: "database \<Rightarrow> uuid \<Rightarrow> string \<Rightarrow> error + ReminderTemplate" where
  "First_template d salonID eventType =
     (if db_fault d (QueryTemplate salonID eventType) then Inl DBError
      else case find (\<lambda>t. TemplateSalonID t = salonID \<and> TemplateType t = eventType
                           \<and> TemplateIsActive t) (reminder_templates d) of
             None \<Rightarrow> Inl ErrRecordNotFound
           | Some t \<Rightarrow> Inr t)"

text \<open>The column of the customers table that the query's \<open>field\<close> names.\<close>

definition column :: "string \<Rightarrow> Customer \<Rightarrow> date option" where
  "column field c = (if field = ''birthday'' then Birthday c else Anniversary c)"

text \<open>
  The raw query of \<open>getUpcomingCustomers\<close>: the rows of the tenant that are active,
  whose \<open>field\<close> is not null, and whose (month, day) is one of the pairs of the IN clause.
\<close>

definition customer_matches :: "uuid \<Rightarrow> string \<Rightarrow> monthDay list \<Rightarrow> Customer \<Rightarrow> bool" where
  "customer_matches salonID field pairs c \<longleftrightarrow>
     CustomerSalonID c = salonID \<and> CustomerIsActive c \<and>
     (case column field c of
        None \<Rightarrow> False
      | Some dt \<Rightarrow> \<lparr>M = Month dt, D = Day dt\<rparr> \<in> set pairs)"

definition Raw_customers ::
  "database \<Rightarrow> uuid \<Rightarrow> string \<Rightarrow> monthDay list \<Rightarrow> error + Customer list" where
  "Raw_customers d salonID field pairs =
     (if db_fault d (QueryCustomers salonID field) then Inl DBError
      else Inr (filter (customer_matches salonID field pairs) (customers d)))"

section \<open>The host: environment variables, clock and gateway; the observable effects\<close>

text \<open>
  \<open>gateway\<close> is the messaging gateway's answer to a send request, which may depend on
  the requests sent before it: an error, or a response whose delivery identifier may be
  absent. An unset environment variable reads as the empty string.
\<close>

record host =
  TWILIO_ACCOUNT_SID :: string
  TWILIO_AUTH_TOKEN :: string
  TWILIO_PHONE_NUMBER :: string
  TWILIO_WHATSAPP_NUMBER :: string
  now :: date
  gateway :: "CreateMessageParams list \<Rightarrow> CreateMessageParams \<Rightarrow> error + string option"

datatype log_line =
    LogTwilioInitialized
  | LogTwilioNotConfigured
  | LogSchedulerNotStarted
  | LogSchedulerStarted
  | LogStartingDaily
  | LogFetchUsersFailed error
  | LogDailyCompleted
  | LogSalonNotFound uuid error
  | LogNotificationsSkipped uuid
  | LogGetCustomersFailed uuid string error
  | LogNoActiveTemplate uuid string error
  | LogSendFailed string string error
  | LogReminderSent string string

text \<open>
  What a run leaves behind: the send requests issued to the gateway, the queries issued to
  the data store, the cron expressions armed, and the log, each in order.
\<close>

record world =
  sends :: "CreateMessageParams list"
  queries :: "db_query list"
  cron_entries :: "string list"
  logs :: "log_line list"

definition logf :: "log_line \<Rightarrow> world \<Rightarrow> world" where
  "logf l w = w\<lparr>logs := logs w @ [l]\<rparr>"

definition ask :: "db_query \<Rightarrow> world \<Rightarrow> world" where
  "ask q w = w\<lparr>queries := queries w @ [q]\<rparr>"

section \<open>The reminder service\<close>

record twilio_client =
  Username :: string
  Password :: string

record ReminderService =
  db :: database
  client :: "twilio_client option"

definition NewReminderService :: "host \<Rightarrow> database \<Rightarrow> world \<Rightarrow> ReminderService \<times> world" where
  "NewReminderService h d w =
     (let accountSid = TrimSpace (TWILIO_ACCOUNT_SID h);
          authToken = TrimSpace (TWILIO_AUTH_TOKEN h)
      in if accountSid \<noteq> [] \<and> authToken \<noteq> []
         then (\<lparr>db = d, client = Some \<lparr>Username = accountSid, Password = authToken\<rparr>\<rparr>,
               logf LogTwilioInitialized w)
         else (\<lparr>db = d, client = None\<rparr>, logf LogTwilioNotConfigured w))"

subsection \<open>getUpcomingCustomers\<close>

definition window_pairs :: "date \<Rightarrow> monthDay list" where
  "window_pairs t =
     map (\<lambda>d. \<lparr>M = Month (AddDate_days t d), D = Day (AddDate_days t d)\<rparr>) [0 ..< 8]"

definition getUpcomingCustomers ::
  "host \<Rightarrow> ReminderService \<Rightarrow> uuid \<Rightarrow> string \<Rightarrow> world \<Rightarrow> (error + Customer list) \<times> world" where
  "getUpcomingCustomers h s salonID eventType w =
     (let field = (if eventType = ''birthday'' then Inr ''birthday''
                   else if eventType = ''anniversary'' then Inr ''anniversary''
                   else Inl (InvalidEventType eventType))
      in case field of
           Inl e \<Rightarrow> (Inl e, w)
         | Inr f \<Rightarrow> (Raw_customers (db s) salonID f (window_pairs (now h)),
                      ask (QueryCustomers salonID f) w))"

subsection \<open>sendReminders\<close>

text \<open>The sender identities, read from the environment by every dispatch.\<close>

definition fromSMS :: "host \<Rightarrow> string" where
  "fromSMS h = TWILIO_PHONE_NUMBER h"

definition fromWhatsApp :: "host \<Rightarrow> string" where
  "fromWhatsApp h = TrimPrefix (TrimSpace (TWILIO_WHATSAPP_NUMBER h)) ''whatsapp:''"

text \<open>
  The body of the send loop up to the gateway call: \<open>None\<close> where the loop continues
  with the next customer without sending, otherwise the channel chosen and the request
  built for it.
\<close>

definition reminder_request ::
  "host \<Rightarrow> ReminderTemplate \<Rightarrow> Salon \<Rightarrow> Customer \<Rightarrow> (string \<times> CreateMessageParams) option" where
  "reminder_request h template salon customer =
     (if TrimSpace (Phone customer) = [] then None
      else
        let message = ReplaceAll (Message template) ''[CustomerName]'' (Name customer);
            useWhatsApp = (WhatsAppNotifications salon \<and> HasPrefix (Phone customer) ''+''
                           \<and> fromWhatsApp h \<noteq> []);
            useSMS = (SMSNotifications salon \<and> fromSMS h \<noteq> []);
            build = (\<lambda>channel to.
               Some (channel,
                     \<lparr>To = to,
                      From = (if channel = ''whatsapp'' then ''whatsapp:'' @ fromWhatsApp h
                              else fromSMS h),
                      Body = message\<rparr>))
        in if useWhatsApp then build ''whatsapp'' (''whatsapp:'' @ Phone customer)
           else if \<not> useSMS then None
           else build ''sms'' (Phone customer))"

text \<open>
  The gateway call: the request is issued and the gateway answers. A service without a
  client dereferences a nil pointer here. The loop then logs the answer and goes on.
\<close>

definition CreateMessage ::
  "host \<Rightarrow> ReminderService \<Rightarrow> CreateMessageParams \<Rightarrow> world
     \<Rightarrow> error + ((error + string option) \<times> world)" where
  "CreateMessage h s params w =
     (case client s of
        None \<Rightarrow> Inl NilPointerDereference
      | Some c \<Rightarrow> Inr (gateway h (sends w) params, w\<lparr>sends := sends w @ [params]\<rparr>))"

fun send_loop ::
  "host \<Rightarrow> ReminderService \<Rightarrow> string \<Rightarrow> ReminderTemplate \<Rightarrow> Salon
     \<Rightarrow> Customer list \<Rightarrow> world \<Rightarrow> error + world" where
  "send_loop h s eventType template salon [] w = Inr w"
| "send_loop h s eventType template salon (customer # rest) w =
     (case reminder_request h template salon customer of
        None \<Rightarrow> send_loop h s eventType template salon rest w
      | Some (channel, params) \<Rightarrow>
          (case CreateMessage h s params w of
             Inl p \<Rightarrow> Inl p
           | Inr (Inl err, w1) \<Rightarrow>
               send_loop h s eventType template salon rest
                 (logf (LogSendFailed eventType (Phone customer) err) w1)
           | Inr (Inr None, w1) \<Rightarrow>
               send_loop h s eventType template salon rest w1
           | Inr (Inr (Some sid), w1) \<Rightarrow>
               send_loop h s eventType template salon rest
                 (logf (LogReminderSent (Phone customer) sid) w1)))"

definition sendReminders ::
  "host \<Rightarrow> ReminderService \<Rightarrow> uuid \<Rightarrow> Customer list \<Rightarrow> string \<Rightarrow> Salon \<Rightarrow> world
     \<Rightarrow> error + world" where
  "sendReminders h s salonID custs eventType salon w =
     (let w1 = ask (QueryTemplate salonID eventType) w in
      (case First_template (db s) salonID eventType of
         Inl err \<Rightarrow> Inr (logf (LogNoActiveTemplate salonID eventType err) w1)
       | Inr template \<Rightarrow> send_loop h s eventType template salon custs w1))"

subsection \<open>ProcessSalonReminders\<close>

text \<open>
  One of the two blocks of \<open>ProcessSalonReminders\<close>, which differ in the event type
  only: fetch the customers of the category, then log the failure or dispatch.
\<close>

definition process_category ::
  "host \<Rightarrow> ReminderService \<Rightarrow> uuid \<Rightarrow> string \<Rightarrow> Salon \<Rightarrow> world \<Rightarrow> error + world" where
  "process_category h s salonID eventType salon w =
     (case getUpcomingCustomers h s salonID eventType w of
        (Inl err, w1) \<Rightarrow> Inr (logf (LogGetCustomersFailed salonID eventType err) w1)
      | (Inr custs, w1) \<Rightarrow> sendReminders h s salonID custs eventType salon w1)"

definition ProcessSalonReminders ::
  "host \<Rightarrow> ReminderService \<Rightarrow> uuid \<Rightarrow> world \<Rightarrow> error + world" where
  "ProcessSalonReminders h s salonID w =
     (let w0 = ask (QuerySalon salonID) w in
      case First_salon (db s) salonID of
        Inl err \<Rightarrow> Inr (logf (LogSalonNotFound salonID err) w0)
      | Inr salon \<Rightarrow>
          if \<not> WhatsAppNotifications salon \<and> \<not> SMSNotifications salon
          then Inr (logf (LogNotificationsSkipped salonID) w0)
          else
            (case (if BirthdayReminders salon
                   then process_category h s salonID ''birthday'' salon w0
                   else Inr w0) of
               Inl p \<Rightarrow> Inl p
             | Inr w1 \<Rightarrow>
                 if AnniversaryReminders salon
                 then process_category h s salonID ''anniversary'' salon w1
                 else Inr w1))"

subsection \<open>SendDailyReminders and StartScheduler\<close>

text \<open>The loop over the active users; \<open>seen\<close> is the map of the tenants already processed.\<close>

fun daily_loop ::
  "host \<Rightarrow> ReminderService \<Rightarrow> User list \<Rightarrow> (uuid \<Rightarrow> bool) \<Rightarrow> world \<Rightarrow> error + world" where
  "daily_loop h s [] seen w = Inr w"
| "daily_loop h s (u # us) seen w =
     (if seen (UserSalonID u) then daily_loop h s us seen w
      else case ProcessSalonReminders h s (UserSalonID u) w of
             Inl p \<Rightarrow> Inl p
           | Inr w1 \<Rightarrow> daily_loop h s us (seen(UserSalonID u := True)) w1)"

definition SendDailyReminders :: "host \<Rightarrow> ReminderService \<Rightarrow> world \<Rightarrow> error + world" where
  "SendDailyReminders h s w =
     (case client s of
        None \<Rightarrow> Inr w
      | Some c \<Rightarrow>
          (let w1 = ask QueryActiveUsers (logf LogStartingDaily w) in
           (case Find_active_users (db s) of
              Inl err \<Rightarrow> Inr (logf (LogFetchUsersFailed err) w1)
            | Inr us \<Rightarrow>
                (case daily_loop h s us (\<lambda>k. False) w1 of
                   Inl p \<Rightarrow> Inl p
                 | Inr w2 \<Rightarrow> Inr (logf LogDailyCompleted w2)))))"

text \<open>
  \<open>StartScheduler\<close> registers \<open>SendDailyReminders\<close> under the cron expression
  \<open>0 9 * * *\<close> (minute 0 of hour 9, every day), starts the cron, and calls
  \<open>SendDailyReminders\<close> once itself.
\<close>

definition StartScheduler :: "host \<Rightarrow> ReminderService \<Rightarrow> world \<Rightarrow> error + world" where
  "StartScheduler h s w =
     (case client s of
        None \<Rightarrow> Inr (logf LogSchedulerNotStarted w)
      | Some c \<Rightarrow>
          (let w1 = w\<lparr>cron_entries := cron_entries w @ [''0 9 * * *'']\<rparr> in
           (case SendDailyReminders h s w1 of
              Inl p \<Rightarrow> Inl p
            | Inr w2 \<Rightarrow> Inr (logf LogSchedulerStarted w2))))"

subsection \<open>SendTestMessage\<close>

definition SendTestMessage ::
  "host \<Rightarrow> ReminderService \<Rightarrow> string \<Rightarrow> string \<Rightarrow> string \<Rightarrow> world \<Rightarrow> error option \<times> world" where
  "SendTestMessage h s phone body channel w =
     (case client s of
        None \<Rightarrow> (Some TwilioNotConfigured, w)
      | Some c \<Rightarrow>
          let send = (\<lambda>to from.
                 let params = \<lparr>To = to, From = from, Body = body\<rparr> in
                 (case gateway h (sends w) params of Inl err \<Rightarrow> Some err | Inr r \<Rightarrow> None,
                  w\<lparr>sends := sends w @ [params]\<rparr>))
          in if channel = ''whatsapp''
             then (if fromWhatsApp h = [] then (Some WhatsAppNumberNotSet, w)
                   else send (''whatsapp:'' @ phone) (''whatsapp:'' @ fromWhatsApp h))
             else if channel = ''sms''
             then (if fromSMS h = [] then (Some PhoneNumberNotSet, w)
                   else send phone (fromSMS h))
             else (Some (InvalidChannel channel), w))"

section \<open>Notions of the specification\<close>

text \<open>
  A date is in the window of \<open>today\<close> when its (month, day) is that of one of the eight
  dates today, today + 1, ..., today + 7; the year is ignored.
\<close>

definition in_window :: "date \<Rightarrow> date \<Rightarrow> bool" where
  "in_window today dt \<longleftrightarrow>
     (\<exists>k\<le>7. Month dt = Month (AddDate_days today k) \<and> Day dt = Day (AddDate_days today k))"

text \<open>
  The customers the resolver is to select: the active customers of the tenant whose
  relevant date is stored and in the window.
\<close>

definition selected :: "date \<Rightarrow> uuid \<Rightarrow> string \<Rightarrow> Customer \<Rightarrow> bool" where
  "selected today salonID eventType c \<longleftrightarrow>
     CustomerSalonID c = salonID \<and> CustomerIsActive c \<and>
     (\<exists>dt. column eventType c = Some dt \<and> in_window today dt)"

text \<open>
  The parts of a text joined by a separator, as \<open>strings.Join\<close> does: a text with
  a placeholder is its parts joined by the placeholder.
\<close>

fun Join :: "string list \<Rightarrow> string \<Rightarrow> string" where
  "Join [] sep = []"
| "Join [p] sep = p"
| "Join (p # q # ps) sep = p @ sep @ Join (q # ps) sep"

definition placeholder :: string where
  "placeholder = ''[CustomerName]''"

text \<open>A string begins with white space when one of the encoded space characters is a prefix.\<close>

definition starts_with_space :: "string \<Rightarrow> bool" where
  "starts_with_space str \<longleftrightarrow> (\<exists>e \<in> set space_runes. prefix e str)"

text \<open>
  The send requests a tenant is due, read off the data store alone: per dispatch (one
  request for every customer the channel policy does not skip, when the tenant has an
  active template), per event category, and per tenant.
\<close>

definition dispatch_requests ::
  "host \<Rightarrow> ReminderService \<Rightarrow> uuid \<Rightarrow> string \<Rightarrow> Salon \<Rightarrow> Customer list
     \<Rightarrow> CreateMessageParams list" where
  "dispatch_requests h s salonID eventType salon custs =
     (case First_template (db s) salonID eventType of
        Inl e \<Rightarrow> []
      | Inr t \<Rightarrow> map snd (List.map_filter (reminder_request h t salon) custs))"

definition category_requests ::
  "host \<Rightarrow> ReminderService \<Rightarrow> uuid \<Rightarrow> string \<Rightarrow> Salon \<Rightarrow> CreateMessageParams list" where
  "category_requests h s salonID eventType salon =
     (case Raw_customers (db s) salonID eventType (window_pairs (now h)) of
        Inl e \<Rightarrow> []
      | Inr custs \<Rightarrow> dispatch_requests h s salonID eventType salon custs)"

definition salon_requests :: "host \<Rightarrow> ReminderService \<Rightarrow> uuid \<Rightarrow> CreateMessageParams list" where
  "salon_requests h s salonID =
     (case First_salon (db s) salonID of
        Inl e \<Rightarrow> []
      | Inr salon \<Rightarrow>
          if \<not> WhatsAppNotifications salon \<and> \<not> SMSNotifications salon then []
          else (if BirthdayReminders salon
                then category_requests h s salonID ''birthday'' salon else [])
             @ (if AnniversaryReminders salon
                then category_requests h s salonID ''anniversary'' salon else []))"

text \<open>The queries one event category issues: the customers, then the template if they were found.\<close>

definition category_queries :: "database \<Rightarrow> uuid \<Rightarrow> string \<Rightarrow> db_query list" where
  "category_queries d salonID eventType =
     QueryCustomers salonID eventType #
       (if db_fault d (QueryCustomers salonID eventType) then []
        else [QueryTemplate salonID eventType])"

text \<open>\<open>ProcessSalonReminders\<close> invoked once for each tenant of a list, in order.\<close>

fun process_each :: "host \<Rightarrow> ReminderService \<Rightarrow> uuid list \<Rightarrow> world \<Rightarrow> error + world" where
  "process_each h s [] w = Inr w"
| "process_each h s (i # ids) w =
     (case ProcessSalonReminders h s i w of
        Inl p \<Rightarrow> Inl p
      | Inr w1 \<Rightarrow> process_each h s ids w1)"

section \<open>A concrete data store and host\<close>

definition ex_today :: date where
  "ex_today = \<lparr>Year = 2025, Month = 12, Day = 25\<rparr>"

definition ex_gateway ::
  "CreateMessageParams list \<Rightarrow> CreateMessageParams \<Rightarrow> error + string option" where
  "ex_gateway history p =
     (if To p = ''whatsapp:+15550001234'' then Inl (GatewayError ''rejected'')
      else Inr (Some ''SM01''))"

definition ex_host :: host where
  "ex_host =
     \<lparr>TWILIO_ACCOUNT_SID = ''AC123'', TWILIO_AUTH_TOKEN = ''secret'',
      TWILIO_PHONE_NUMBER = ''+15005550006'',
      TWILIO_WHATSAPP_NUMBER = ''whatsapp:+14155238886'',
      now = ex_today, gateway = ex_gateway\<rparr>"

definition ex_asha :: Customer where
  "ex_asha =
     \<lparr>CustomerSalonID = 1, CustomerIsActive = True, Name = ''Asha'',
      Phone = ''+15550001234'',
      Birthday = Some \<lparr>Year = 1990, Month = 12, Day = 30\<rparr>, Anniversary = None\<rparr>"

definition ex_cara :: Customer where
  "ex_cara =
     \<lparr>CustomerSalonID = 1, CustomerIsActive = True, Name = ''Cara'',
      Phone = ''+15550003333'',
      Birthday = Some \<lparr>Year = 1988, Month = 1, Day = 2\<rparr>, Anniversary = None\<rparr>"

definition ex_dev :: Customer where
  "ex_dev =
     \<lparr>CustomerSalonID = 1, CustomerIsActive = True, Name = ''Dev'',
      Phone = ''+15550004444'',
      Birthday = Some \<lparr>Year = 1979, Month = 12, Day = 24\<rparr>, Anniversary = None\<rparr>"

definition ex_eli :: Customer where
  "ex_eli =
     \<lparr>CustomerSalonID = 1, CustomerIsActive = False, Name = ''Eli'',
      Phone = ''+15550005555'',
      Birthday = Some \<lparr>Year = 2001, Month = 12, Day = 26\<rparr>, Anniversary = None\<rparr>"

definition ex_ben :: Customer where
  "ex_ben =
     \<lparr>CustomerSalonID = 2, CustomerIsActive = True, Name = ''Ben'',
      Phone = '' +15550005678'',
      Birthday = Some \<lparr>Year = 1985, Month = 1, Day = 1\<rparr>,
      Anniversary = Some \<lparr>Year = 2010, Month = 12, Day = 31\<rparr>\<rparr>"

definition ex_fay :: Customer where
  "ex_fay =
     \<lparr>CustomerSalonID = 2, CustomerIsActive = True, Name = ''Fay'',
      Phone = ''+15550002222'',
      Birthday = Some \<lparr>Year = 1995, Month = 12, Day = 27\<rparr>, Anniversary = None\<rparr>"

definition ex_gus :: Customer where
  "ex_gus =
     \<lparr>CustomerSalonID = 2, CustomerIsActive = True, Name = ''Gus'',
      Phone = ''   '',
      Birthday = Some \<lparr>Year = 1970, Month = 12, Day = 25\<rparr>, Anniversary = None\<rparr>"

definition ex_salon1 :: Salon where
  "ex_salon1 =
     \<lparr>ID = 1, BirthdayReminders = True, AnniversaryReminders = False,
      WhatsAppNotifications = True, SMSNotifications = False\<rparr>"

definition ex_salon2 :: Salon where
  "ex_salon2 =
     \<lparr>ID = 2, BirthdayReminders = True, AnniversaryReminders = True,
      WhatsAppNotifications = True, SMSNotifications = True\<rparr>"

definition ex_salon3 :: Salon where
  "ex_salon3 =
     \<lparr>ID = 3, BirthdayReminders = True, AnniversaryReminders = True,
      WhatsAppNotifications = False, SMSNotifications = False\<rparr>"

definition ex_template1 :: ReminderTemplate where
  "ex_template1 =
     \<lparr>TemplateSalonID = 1, TemplateType = ''birthday'',
      Message = ''Happy Birthday [CustomerName]'', TemplateIsActive = True\<rparr>"

definition ex_template2 :: ReminderTemplate where
  "ex_template2 =
     \<lparr>TemplateSalonID = 2, TemplateType = ''birthday'',
      Message = ''Happy Birthday [CustomerName]!'', TemplateIsActive = True\<rparr>"

definition ex_template3 :: ReminderTemplate where
  "ex_template3 =
     \<lparr>TemplateSalonID = 2, TemplateType = ''anniversary'',
      Message = ''Happy Anniversary [CustomerName]'', TemplateIsActive = False\<rparr>"

text \<open>
  Tenant 1 has two operator accounts, tenant 4 has an account but no salon record, and
  the account of tenant 5 is inactive.
\<close>

definition ex_db :: database where
  "ex_db =
     \<lparr>users =
        [\<lparr>UserSalonID = 1, UserIsActive = True\<rparr>, \<lparr>UserSalonID = 2, UserIsActive = True\<rparr>,
         \<lparr>UserSalonID = 1, UserIsActive = True\<rparr>, \<lparr>UserSalonID = 4, UserIsActive = True\<rparr>,
         \<lparr>UserSalonID = 3, UserIsActive = True\<rparr>, \<lparr>UserSalonID = 5, UserIsActive = False\<rparr>],
      salons = [ex_salon1, ex_salon2, ex_salon3],
      customers = [ex_asha, ex_ben, ex_cara, ex_dev, ex_eli, ex_fay, ex_gus],
      reminder_templates = [ex_template1, ex_template2, ex_template3],
      db_fault = (\<lambda>q. False)\<rparr>"

definition ex_service :: ReminderService where
  "ex_service = \<lparr>db = ex_db, client = Some \<lparr>Username = ''AC123'', Password = ''secret''\<rparr>\<rparr>"

definition ex_world :: world where
  "ex_world = \<lparr>sends = [], queries = [], cron_entries = [], logs = []\<rparr>"

section \<open>The calendar\<close>

lemma days_in_bounds: "28 \<le> days_in y m \<and> days_in y m \<le> 31"
  by (simp add: days_in_def)

lemma valid_next_day: "valid_date t \<Longrightarrow> valid_date (next_day t)"
  using days_in_bounds [of "Year t" "Month t + 1"]
  by (auto simp: valid_date_def next_day_def days_in_def)

lemma AddDate_days_0: "AddDate_days t 0 = t"
  by (simp add: AddDate_days_def)

lemma AddDate_days_Suc: "AddDate_days t (Suc k) = next_day (AddDate_days t k)"
  by (simp add: AddDate_days_def)

lemma AddDate_days_Suc': "AddDate_days t (Suc k) = AddDate_days (next_day t) k"
  by (simp add: AddDate_days_def funpow_swap1)

lemma AddDate_days_add: "AddDate_days t (a + b) = AddDate_days (AddDate_days t b) a"
  by (simp add: AddDate_days_def funpow_add)

lemma valid_AddDate_days: "valid_date t \<Longrightarrow> valid_date (AddDate_days t k)"
  by (induction k) (simp_all add: AddDate_days_0 AddDate_days_Suc valid_next_day)

text \<open>Within four weeks, adding days stays in the month or reaches the next one.\<close>

lemma AddDate_days_small:
  "valid_date t \<Longrightarrow> k \<le> 28 \<Longrightarrow>
   AddDate_days t k =
     (if Day t + int k \<le> days_in (Year t) (Month t) then t\<lparr>Day := Day t + int k\<rparr>
      else if Month t < 12
      then t\<lparr>Month := Month t + 1, Day := Day t + int k - days_in (Year t) (Month t)\<rparr>
      else \<lparr>Year = Year t + 1, Month = 1, Day = Day t + int k - 31\<rparr>)"
proof (induction k)
  case 0
  then show ?case by (simp add: AddDate_days_0 valid_date_def)
next
  case (Suc k)
  have b: "28 \<le> days_in (Year t) (Month t + 1)" "28 \<le> days_in (Year t + 1) 1"
       "days_in (Year t) 12 = 31"
    using days_in_bounds by (simp_all add: days_in_def)
  from Suc show ?case
    using b by (auto simp: AddDate_days_Suc next_day_def valid_date_def)
qed

lemma monthDay_changes:
  assumes "valid_date t" "1 \<le> k" "k \<le> 28"
  shows "Month (AddDate_days t k) \<noteq> Month t \<or> Day (AddDate_days t k) \<noteq> Day t"
  using assms by (auto simp: AddDate_days_small)

lemma window_pairs_iff:
  "\<lparr>M = Month dt, D = Day dt\<rparr> \<in> set (window_pairs t) \<longleftrightarrow> in_window t dt"
proof -
  have "\<And>k::nat. k < 8 \<longleftrightarrow> k \<le> 7" by arith
  then show ?thesis
    by (auto simp: window_pairs_def in_window_def image_iff Bex_def)
qed

lemma day_after_window:
  assumes "valid_date t" "k \<le> 7"
  shows "Month (AddDate_days t 8) \<noteq> Month (AddDate_days t k)
         \<or> Day (AddDate_days t 8) \<noteq> Day (AddDate_days t k)"
proof -
  have "AddDate_days t 8 = AddDate_days (AddDate_days t k) (8 - k)"
    using assms(2) AddDate_days_add [of t "8 - k" k] by simp
  then show ?thesis
    using monthDay_changes [of "AddDate_days t k" "8 - k"] assms
    by (simp add: valid_AddDate_days)
qed

lemma day_before_window:
  assumes "valid_date y" "k \<le> 7"
  shows "Month y \<noteq> Month (AddDate_days (next_day y) k)
         \<or> Day y \<noteq> Day (AddDate_days (next_day y) k)"
  using monthDay_changes [of y "Suc k"] assms
  by (auto simp: AddDate_days_Suc')

lemma not_in_window_after:
  "valid_date t \<Longrightarrow> Month dt = Month (AddDate_days t 8) \<Longrightarrow> Day dt = Day (AddDate_days t 8)
   \<Longrightarrow> \<not> in_window t dt"
  using day_after_window [of t] by (auto simp: in_window_def)

lemma not_in_window_before:
  "valid_date y \<Longrightarrow> Month dt = Month y \<Longrightarrow> Day dt = Day y \<Longrightarrow> \<not> in_window (next_day y) dt"
  using day_before_window [of y] by (auto simp: in_window_def)

lemma window_pairs_december:
  assumes "Month t = 12" "Day t = 25"
  shows "window_pairs t =
    [\<lparr>M = 12, D = 25\<rparr>, \<lparr>M = 12, D = 26\<rparr>, \<lparr>M = 12, D = 27\<rparr>, \<lparr>M = 12, D = 28\<rparr>,
     \<lparr>M = 12, D = 29\<rparr>, \<lparr>M = 12, D = 30\<rparr>, \<lparr>M = 12, D = 31\<rparr>, \<lparr>M = 1, D = 1\<rparr>]"
proof -
  have v: "valid_date t" using assms by (simp add: valid_date_def days_in_def)
  have u: "[0 ..< 8] = [0, 1, 2, 3, 4, 5, 6, 7::nat]" by (simp add: upt_rec)
  show ?thesis
    using assms by (simp add: window_pairs_def u AddDate_days_small [OF v] days_in_def)
qed

lemma customer_matches_selected:
  "customer_matches salonID field (window_pairs t) = selected t salonID field"
  by (auto simp: fun_eq_iff customer_matches_def selected_def window_pairs_iff
           split: option.splits)

lemma getUpcomingCustomers_ok:
  assumes "eventType = ''birthday'' \<or> eventType = ''anniversary''"
  shows "getUpcomingCustomers h s salonID eventType w =
           (Raw_customers (db s) salonID eventType (window_pairs (now h)),
            ask (QueryCustomers salonID eventType) w)"
  using assms by (auto simp: getUpcomingCustomers_def)

text \<open>
  Claim C1. For a valid current date and a known event category, when the query succeeds,
  the resolver returns exactly the active customers of the tenant whose relevant date is
  stored and has the (month, day) of one of the eight dates today, ..., today + 7. A
  customer whose date has the (month, day) of today + 8, or of the day before today, is
  not returned. On December 25 the window is December 25 to 31 and January 1.
\<close>

theorem getUpcomingCustomers_window:
  assumes "valid_date (now h)"
      and "eventType = ''birthday'' \<or> eventType = ''anniversary''"
      and "\<not> db_fault (db s) (QueryCustomers salonID eventType)"
  shows "\<exists>cs. fst (getUpcomingCustomers h s salonID eventType w) = Inr cs \<and>
           cs = filter (selected (now h) salonID eventType) (customers (db s)) \<and>
           (\<forall>c dt. column eventType c = Some dt \<and>
                   Month dt = Month (AddDate_days (now h) 8) \<and>
                   Day dt = Day (AddDate_days (now h) 8) \<longrightarrow> c \<notin> set cs) \<and>
           (\<forall>c dt y. column eventType c = Some dt \<and> valid_date y \<and> next_day y = now h \<and>
                   Month dt = Month y \<and> Day dt = Day y \<longrightarrow> c \<notin> set cs) \<and>
           (Month (now h) = 12 \<and> Day (now h) = 25 \<longrightarrow>
              (\<forall>c. c \<in> set cs \<longleftrightarrow>
                 c \<in> set (customers (db s)) \<and> CustomerSalonID c = salonID \<and> CustomerIsActive c \<and>
                 (\<exists>dt. column eventType c = Some dt \<and>
                    (Month dt = 12 \<and> Day dt \<in> {25, 26, 27, 28, 29, 30, 31}
                     \<or> Month dt = 1 \<and> Day dt = 1))))"
proof -
  let ?cs = "filter (selected (now h) salonID eventType) (customers (db s))"
  have 1: "fst (getUpcomingCustomers h s salonID eventType w) = Inr ?cs"
    using assms(2,3)
    by (simp add: getUpcomingCustomers_ok Raw_customers_def customer_matches_selected)
  have 2: "c \<notin> set ?cs"
    if "column eventType c = Some dt" "Month dt = Month (AddDate_days (now h) 8)"
       "Day dt = Day (AddDate_days (now h) 8)" for c dt
    using that not_in_window_after [OF assms(1), of dt] by (simp add: selected_def)
  have 3: "c \<notin> set ?cs"
    if "column eventType c = Some dt" "valid_date y" "next_day y = now h"
       "Month dt = Month y" "Day dt = Day y" for c dt y
    using that not_in_window_before [of y dt] by (auto simp: selected_def)
  have 4: "c \<in> set ?cs \<longleftrightarrow>
             c \<in> set (customers (db s)) \<and> CustomerSalonID c = salonID \<and> CustomerIsActive c \<and>
             (\<exists>dt. column eventType c = Some dt \<and>
                (Month dt = 12 \<and> Day dt \<in> {25, 26, 27, 28, 29, 30, 31}
                 \<or> Month dt = 1 \<and> Day dt = 1))"
    if "Month (now h) = 12" "Day (now h) = 25" for c
  proof -
    have "in_window (now h) dt \<longleftrightarrow>
            (Month dt = 12 \<and> Day dt \<in> {25, 26, 27, 28, 29, 30, 31} \<or> Month dt = 1 \<and> Day dt = 1)"
      for dt
      using window_pairs_iff [of dt "now h", symmetric] window_pairs_december [OF that]
      by auto
    then show ?thesis by (auto simp: selected_def)
  qed
  from 1 2 3 4 show ?thesis by blast
qed


lemma ex_upcoming_birthdays:
  "fst (getUpcomingCustomers ex_host ex_service 1 ''birthday'' ex_world) = Inr [ex_asha]"
  by (simp add: getUpcomingCustomers_def Raw_customers_def customer_matches_def column_def
        window_pairs_def upt_rec AddDate_days_def numeral_eq_Suc next_day_def days_in_def
        is_leap_def ex_host_def ex_service_def ex_db_def ex_today_def ex_asha_def ex_ben_def
        ex_cara_def ex_dev_def ex_eli_def ex_fay_def ex_gus_def)

theorem getUpcomingCustomers_window_witness:
  "valid_date (now ex_host) \<and> \<not> db_fault (db ex_service) (QueryCustomers 1 ''birthday'') \<and>
   (\<exists>cs. fst (getUpcomingCustomers ex_host ex_service 1 ''birthday'' ex_world) = Inr cs \<and>
      cs = [ex_asha] \<and> ex_cara \<notin> set cs \<and> ex_dev \<notin> set cs)"
proof -
  have h1: "valid_date (now ex_host)"
    by (simp add: ex_host_def ex_today_def valid_date_def days_in_def)
  have h2: "''birthday'' = ''birthday'' \<or> ''birthday'' = ''anniversary''" by simp
  have h3: "\<not> db_fault (db ex_service) (QueryCustomers 1 ''birthday'')"
    by (simp add: ex_service_def ex_db_def)
  from getUpcomingCustomers_window [OF h1 h2 h3, of ex_world]
  obtain cs where cs: "fst (getUpcomingCustomers ex_host ex_service 1 ''birthday'' ex_world) = Inr cs"
    and after: "\<forall>c dt. column ''birthday'' c = Some dt \<and>
                   Month dt = Month (AddDate_days (now ex_host) 8) \<and>
                   Day dt = Day (AddDate_days (now ex_host) 8) \<longrightarrow> c \<notin> set cs"
    and before: "\<forall>c dt y. column ''birthday'' c = Some dt \<and> valid_date y \<and>
                   next_day y = now ex_host \<and> Month dt = Month y \<and> Day dt = Day y
                   \<longrightarrow> c \<notin> set cs"
    by blast
  have a8: "AddDate_days (now ex_host) 8 = \<lparr>Year = 2026, Month = 1, Day = 2\<rparr>"
    by (simp add: ex_host_def ex_today_def AddDate_days_def numeral_eq_Suc next_day_def
                  days_in_def is_leap_def)
  have c1: "cs = [ex_asha]" using cs ex_upcoming_birthdays by simp
  have "column ''birthday'' ex_cara = Some \<lparr>Year = 1988, Month = 1, Day = 2\<rparr> \<and>
        Month \<lparr>Year = 1988, Month = 1, Day = 2\<rparr> = Month (AddDate_days (now ex_host) 8) \<and>
        Day \<lparr>Year = 1988, Month = 1, Day = 2\<rparr> = Day (AddDate_days (now ex_host) 8)"
    by (simp add: a8 column_def ex_cara_def)
  then have c2: "ex_cara \<notin> set cs"
    by (rule after [rule_format])
  have "column ''birthday'' ex_dev = Some \<lparr>Year = 1979, Month = 12, Day = 24\<rparr> \<and>
        valid_date \<lparr>Year = 2025, Month = 12, Day = 24\<rparr> \<and>
        next_day \<lparr>Year = 2025, Month = 12, Day = 24\<rparr> = now ex_host \<and>
        Month \<lparr>Year = 1979, Month = 12, Day = 24\<rparr> = Month \<lparr>Year = 2025, Month = 12, Day = 24\<rparr> \<and>
        Day \<lparr>Year = 1979, Month = 12, Day = 24\<rparr> = Day \<lparr>Year = 2025, Month = 12, Day = 24\<rparr>"
    by (simp add: column_def ex_dev_def valid_date_def days_in_def next_day_def
                  ex_host_def ex_today_def)
  then have c3: "ex_dev \<notin> set cs"
    by (rule before [rule_format])
  from h1 h3 cs c1 c2 c3 show ?thesis by blast
qed

section \<open>The channel policy\<close>

lemma starts_with_space_no_plus: "starts_with_space str \<Longrightarrow> \<not> HasPrefix str ''+''"
  by (auto simp: starts_with_space_def HasPrefix_def space_runes_def prefix_def)

lemma sends_logf [simp]: "sends (logf l w) = sends w"
  and queries_logf [simp]: "queries (logf l w) = queries w"
  and cron_logf [simp]: "cron_entries (logf l w) = cron_entries w"
  and sends_ask [simp]: "sends (ask q w) = sends w"
  and queries_ask [simp]: "queries (ask q w) = queries w @ [q]"
  and cron_ask [simp]: "cron_entries (ask q w) = cron_entries w"
  by (simp_all add: logf_def ask_def)

lemma send_loop_sends:
  "send_loop h s eventType t salon custs w = Inr w' \<Longrightarrow>
   sends w' = sends w @ map snd (List.map_filter (reminder_request h t salon) custs)
   \<and> queries w' = queries w \<and> cron_entries w' = cron_entries w"
proof (induction custs arbitrary: w)
  case Nil
  then show ?case by (simp add: map_filter_simps)
next
  case (Cons c custs)
  show ?case
  proof (cases "reminder_request h t salon c")
    case None
    with Cons show ?thesis by (simp add: map_filter_simps)
  next
    case (Some cp)
    obtain ch p where cp: "cp = (ch, p)" by (cases cp)
    from Cons.prems Some cp obtain cl where cl: "client s = Some cl"
      by (cases "client s") (auto simp: CreateMessage_def)
    let ?w1 = "w\<lparr>sends := sends w @ [p]\<rparr>"
    from Cons.prems Some cp cl
    obtain w2 where w2: "send_loop h s eventType t salon custs w2 = Inr w'"
      and s2: "sends w2 = sends w @ [p]" "queries w2 = queries w"
              "cron_entries w2 = cron_entries w"
      by (cases "gateway h (sends w) p")
         (auto simp: CreateMessage_def split: option.splits)
    from Cons.IH [OF w2] s2 Some cp show ?thesis
      by (simp add: map_filter_simps)
  qed
qed

text \<open>
  Claim C2. For a customer with a non-blank phone, the send loop chooses WhatsApp exactly
  when the tenant has WhatsApp enabled, the phone begins with + and a WhatsApp sender is
  configured; otherwise SMS exactly when the tenant has SMS enabled and an SMS sender is
  configured; otherwise it skips the customer. No other channel exists, and a pass of the
  loop issues, in order, the one request of every customer it does not skip, and no other.
\<close>

theorem channel_policy:
  assumes "TrimSpace (Phone c) \<noteq> []"
  shows "((\<exists>p. reminder_request h t salon c = Some (''whatsapp'', p)) \<longleftrightarrow>
            WhatsAppNotifications salon \<and> HasPrefix (Phone c) ''+'' \<and> fromWhatsApp h \<noteq> []) \<and>
         ((\<exists>p. reminder_request h t salon c = Some (''sms'', p)) \<longleftrightarrow>
            \<not> (WhatsAppNotifications salon \<and> HasPrefix (Phone c) ''+'' \<and> fromWhatsApp h \<noteq> [])
            \<and> SMSNotifications salon \<and> fromSMS h \<noteq> []) \<and>
         (reminder_request h t salon c = None \<longleftrightarrow>
            \<not> (WhatsAppNotifications salon \<and> HasPrefix (Phone c) ''+'' \<and> fromWhatsApp h \<noteq> [])
            \<and> \<not> (SMSNotifications salon \<and> fromSMS h \<noteq> [])) \<and>
         (\<forall>ch p. reminder_request h t salon c = Some (ch, p) \<longrightarrow>
            ch = ''whatsapp'' \<or> ch = ''sms'') \<and>
         (\<forall>s eventType custs w w'.
            send_loop h s eventType t salon custs w = Inr w' \<longrightarrow>
            sends w' = sends w @ map snd (List.map_filter (reminder_request h t salon) custs))"
proof -
  have "\<forall>s eventType custs w w'.
            send_loop h s eventType t salon custs w = Inr w' \<longrightarrow>
            sends w' = sends w @ map snd (List.map_filter (reminder_request h t salon) custs)"
    using send_loop_sends by blast
  moreover have "(\<exists>p. reminder_request h t salon c = Some (''whatsapp'', p)) \<longleftrightarrow>
            WhatsAppNotifications salon \<and> HasPrefix (Phone c) ''+'' \<and> fromWhatsApp h \<noteq> []"
    using assms by (auto simp: reminder_request_def Let_def)
  moreover have "(\<exists>p. reminder_request h t salon c = Some (''sms'', p)) \<longleftrightarrow>
            \<not> (WhatsAppNotifications salon \<and> HasPrefix (Phone c) ''+'' \<and> fromWhatsApp h \<noteq> [])
            \<and> SMSNotifications salon \<and> fromSMS h \<noteq> []"
    using assms by (auto simp: reminder_request_def Let_def)
  moreover have "reminder_request h t salon c = None \<longleftrightarrow>
            \<not> (WhatsAppNotifications salon \<and> HasPrefix (Phone c) ''+'' \<and> fromWhatsApp h \<noteq> [])
            \<and> \<not> (SMSNotifications salon \<and> fromSMS h \<noteq> [])"
    using assms by (auto simp: reminder_request_def Let_def)
  moreover have "\<forall>ch p. reminder_request h t salon c = Some (ch, p) \<longrightarrow>
            ch = ''whatsapp'' \<or> ch = ''sms''"
    by (auto simp: reminder_request_def Let_def split: if_splits)
  ultimately show ?thesis by blast
qed

lemma TrimSpace_asha: "TrimSpace ''+15550001234'' = ''+15550001234''"
  by (simp add: TrimSpace_def TrimLeft.simps TrimRight.simps space_runes_def suffix_to_prefix)

lemma fromWhatsApp_ex: "fromWhatsApp ex_host = ''+14155238886''"
  by (simp add: fromWhatsApp_def ex_host_def TrimSpace_def TrimLeft.simps TrimRight.simps
        space_runes_def suffix_to_prefix TrimPrefix_def HasPrefix_def)

theorem channel_policy_witness:
  "TrimSpace (Phone ex_asha) \<noteq> [] \<and>
   (\<exists>p. reminder_request ex_host ex_template2 ex_salon2 ex_asha = Some (''whatsapp'', p)) \<and>
   reminder_request ex_host ex_template2 ex_salon2 ex_asha \<noteq> None"
proof -
  have h: "TrimSpace (Phone ex_asha) \<noteq> []"
    by (simp add: ex_asha_def TrimSpace_asha)
  have "WhatsAppNotifications ex_salon2 \<and> HasPrefix (Phone ex_asha) ''+''
        \<and> fromWhatsApp ex_host \<noteq> []"
    by (simp add: ex_salon2_def ex_asha_def HasPrefix_def fromWhatsApp_ex)
  with channel_policy [OF h, of ex_host ex_template2 ex_salon2] h show ?thesis
    by blast
qed

section \<open>Unknown event categories and channels\<close>

text \<open>
  Claim C9. For every event type other than birthday and anniversary the resolver returns
  an error saying so, with no customers and without querying the data store. For every
  channel other than sms and whatsapp the test send returns an error and issues no gateway
  request; the error is the one for the channel when the service has a client (without
  one, it is the error for the missing configuration).
\<close>

theorem unknown_category_or_channel:
  "(eventType \<noteq> ''birthday'' \<and> eventType \<noteq> ''anniversary'' \<longrightarrow>
      getUpcomingCustomers h s salonID eventType w = (Inl (InvalidEventType eventType), w)) \<and>
   (channel \<noteq> ''sms'' \<and> channel \<noteq> ''whatsapp'' \<longrightarrow>
      (\<exists>e. SendTestMessage h s phone body channel w = (Some e, w)) \<and>
      (client s \<noteq> None \<longrightarrow>
         SendTestMessage h s phone body channel w = (Some (InvalidChannel channel), w)))"
  by (auto simp: getUpcomingCustomers_def SendTestMessage_def Let_def split: option.splits)

theorem unknown_category_or_channel_witness:
  "getUpcomingCustomers ex_host ex_service 1 ''wedding'' ex_world =
     (Inl (InvalidEventType ''wedding''), ex_world) \<and>
   SendTestMessage ex_host ex_service ''+15550001234'' ''hello'' ''email'' ex_world =
     (Some (InvalidChannel ''email''), ex_world)"
proof -
  have "client ex_service \<noteq> None" by (simp add: ex_service_def)
  with unknown_category_or_channel
         [of "''wedding''" ex_host ex_service 1 ex_world "''email''" "''+15550001234''" "''hello''"]
  show ?thesis by simp
qed

section \<open>Phones that begin with white space\<close>

text \<open>
  Claim C10. The test for the + prefix reads the phone as stored. For a customer whose
  phone is not blank but begins with white space, WhatsApp is never chosen, whatever the
  tenant's flags and the senders configured, and a request that is made is an SMS request
  whose recipient is the phone as stored, white space included.
\<close>

theorem untrimmed_phone_prefix:
  assumes "TrimSpace (Phone c) \<noteq> []" and "starts_with_space (Phone c)"
  shows "(\<forall>p. reminder_request h t salon c \<noteq> Some (''whatsapp'', p)) \<and>
         (\<forall>ch p. reminder_request h t salon c = Some (ch, p) \<longrightarrow>
                 ch = ''sms'' \<and> To p = Phone c) \<and>
         ((\<exists>p. reminder_request h t salon c = Some (''sms'', p)) \<longleftrightarrow>
            SMSNotifications salon \<and> fromSMS h \<noteq> [])"
  using assms starts_with_space_no_plus [of "Phone c"]
  by (auto simp: reminder_request_def Let_def)

lemma TrimSpace_ben: "TrimSpace '' +15550005678'' = ''+15550005678''"
  by (simp add: TrimSpace_def TrimLeft.simps TrimRight.simps space_runes_def suffix_to_prefix)

theorem untrimmed_phone_prefix_witness:
  "TrimSpace (Phone ex_ben) \<noteq> [] \<and> starts_with_space (Phone ex_ben) \<and>
   WhatsAppNotifications ex_salon2 \<and> fromWhatsApp ex_host \<noteq> [] \<and>
   (\<exists>p. reminder_request ex_host ex_template2 ex_salon2 ex_ben = Some (''sms'', p) \<and>
        To p = '' +15550005678'')"
proof -
  have h1: "TrimSpace (Phone ex_ben) \<noteq> []"
    by (simp add: ex_ben_def TrimSpace_ben)
  have h2: "starts_with_space (Phone ex_ben)"
    by (simp add: ex_ben_def starts_with_space_def space_runes_def)
  have h3: "SMSNotifications ex_salon2 \<and> fromSMS ex_host \<noteq> []"
    by (simp add: ex_salon2_def fromSMS_def ex_host_def)
  from untrimmed_phone_prefix [OF h1 h2, of ex_host ex_template2 ex_salon2] h3
  obtain p where p: "reminder_request ex_host ex_template2 ex_salon2 ex_ben = Some (''sms'', p)"
    and "To p = Phone ex_ben"
    by blast
  then have "To p = '' +15550005678''" by (simp add: ex_ben_def)
  with p h1 h2 show ?thesis
    by (auto simp: ex_salon2_def fromWhatsApp_ex)
qed

section \<open>The name placeholder\<close>

lemma ReplaceAll_absent:
  "\<not> sublist old str \<Longrightarrow> ReplaceAll str old new = str"
proof (induction str)
  case Nil
  then show ?case by simp
next
  case (Cons c cs)
  have "\<not> prefix old (c # cs)" using Cons.prems by (auto dest: prefix_imp_sublist)
  moreover have "\<not> sublist old cs" using Cons.prems by (auto simp: sublist_Cons_right)
  ultimately show ?case using Cons.IH by simp
qed

text \<open>A pattern whose first character does not occur again in it cannot overlap itself.\<close>

lemma no_border:
  assumes old: "old \<noteq> []" "hd old \<notin> set (tl old)"
      and pre: "prefix old (p @ old @ rest)" and p: "p \<noteq> []"
  shows "prefix old p"
proof (rule ccontr)
  assume n: "\<not> prefix old p"
  from pre have "prefix old p \<or> prefix p old"
    using prefix_same_cases [of old "p @ old @ rest" p] by simp
  with n obtain q where q: "old = p @ q" by (auto simp: prefix_def)
  with n have qn: "q \<noteq> []" by auto
  from pre q have "prefix (p @ q) (p @ old @ rest)" by simp
  then have "prefix q (old @ rest)" by simp
  with qn old(1) have hq: "hd q = hd old"
    by (cases q; cases old) auto
  from p q obtain p' where "tl old = p' @ q"
    by (cases p) auto
  with qn have "hd q \<in> set (tl old)" by (cases q) auto
  with hq old(2) show False by simp
qed

lemma ReplaceAll_first:
  assumes old: "old \<noteq> []" "hd old \<notin> set (tl old)"
  shows "\<not> sublist old p \<Longrightarrow>
         ReplaceAll (p @ old @ rest) old new = p @ new @ ReplaceAll rest old new"
proof (induction p)
  case Nil
  from old(1) obtain c cs where "old = c # cs" by (cases old) auto
  then show ?case by simp
next
  case (Cons c cs)
  have "\<not> prefix old ((c # cs) @ old @ rest)"
    using no_border [OF old, of "c # cs" rest] Cons.prems
    by (auto dest: prefix_imp_sublist)
  moreover have "\<not> sublist old cs"
    using Cons.prems by (auto simp: sublist_Cons_right)
  ultimately show ?case using Cons.IH by simp
qed

lemma Join_Cons: "parts \<noteq> [] \<Longrightarrow> Join (a # parts) sep = a @ sep @ Join parts sep"
  by (cases parts) simp_all

lemma ReplaceAll_Join:
  "old \<noteq> [] \<Longrightarrow> hd old \<notin> set (tl old) \<Longrightarrow> \<forall>x \<in> set parts. \<not> sublist old x \<Longrightarrow>
   ReplaceAll (Join parts old) old new = Join parts new"
proof (induction parts old rule: Join.induct)
  case (1 sep)
  show ?case by simp
next
  case (2 p sep)
  then show ?case by (simp add: ReplaceAll_absent)
next
  case (3 p q ps sep)
  then show ?case by (simp add: ReplaceAll_first del: ReplaceAll.simps)
qed

lemma first_occurrence:
  assumes "old \<noteq> []"
  shows "sublist old str \<Longrightarrow> \<exists>a b. str = a @ old @ b \<and> \<not> sublist old a"
proof (induction str)
  case Nil
  with assms show ?case by simp
next
  case (Cons c cs)
  show ?case
  proof (cases "prefix old (c # cs)")
    case True
    then obtain b where "c # cs = [] @ old @ b" by (auto simp: prefix_def)
    moreover have "\<not> sublist old []" using assms by simp
    ultimately show ?thesis by blast
  next
    case False
    with Cons.prems have "sublist old cs" by (simp add: sublist_Cons_right)
    from Cons.IH [OF this] obtain a b where ab: "cs = a @ old @ b" "\<not> sublist old a"
      by blast
    have "\<not> prefix old (c # a)"
      using False ab(1) prefix_prefix [of old "c # a" "old @ b"] by auto
    with ab(2) have "\<not> sublist old (c # a)" by (simp add: sublist_Cons_right)
    moreover have "c # cs = (c # a) @ old @ b" using ab(1) by simp
    ultimately show ?thesis by blast
  qed
qed

lemma Join_decomposition:
  assumes "old \<noteq> []"
  shows "\<exists>parts. parts \<noteq> [] \<and> str = Join parts old \<and> (\<forall>x \<in> set parts. \<not> sublist old x)"
proof (induction str rule: length_induct)
  case (1 str)
  show ?case
  proof (cases "sublist old str")
    case False
    then have "[str] \<noteq> [] \<and> str = Join [str] old \<and> (\<forall>x \<in> set [str]. \<not> sublist old x)"
      by simp
    then show ?thesis by blast
  next
    case True
    from first_occurrence [OF assms True] obtain a b
      where ab: "str = a @ old @ b" "\<not> sublist old a" by blast
    with assms have "length b < length str" by (cases old) auto
    with 1 obtain parts where p: "parts \<noteq> []" "b = Join parts old"
      "\<forall>x \<in> set parts. \<not> sublist old x" by blast
    then have "a # parts \<noteq> [] \<and> str = Join (a # parts) old
               \<and> (\<forall>x \<in> set (a # parts). \<not> sublist old x)"
      using ab by (simp add: Join_Cons)
    then show ?thesis by blast
  qed
qed

lemma placeholder_props: "placeholder \<noteq> []" "hd placeholder \<notin> set (tl placeholder)"
  by (simp_all add: placeholder_def)

lemma Body_request:
  "reminder_request h t salon c = Some (ch, p) \<Longrightarrow>
   Body p = ReplaceAll (Message t) placeholder (Name c)"
  by (auto simp: reminder_request_def Let_def placeholder_def split: if_splits)

text \<open>
  Claim C6. The body of every request the send loop makes is the template's message with
  every occurrence of [CustomerName] replaced by the customer's name: whenever the
  message is a list of parts joined by [CustomerName], none of which contains
  [CustomerName], the body is the same parts joined by the name; every message is such
  a join. A message that does not contain [CustomerName] is sent as it is.
\<close>

theorem name_substitution:
  assumes "reminder_request h t salon c = Some (ch, p)"
  shows "(\<forall>parts. Message t = Join parts ''[CustomerName]'' \<and>
                  (\<forall>x \<in> set parts. \<not> sublist ''[CustomerName]'' x)
                  \<longrightarrow> Body p = Join parts (Name c)) \<and>
         (\<exists>parts. Message t = Join parts ''[CustomerName]'' \<and>
                  (\<forall>x \<in> set parts. \<not> sublist ''[CustomerName]'' x)) \<and>
         (\<not> sublist ''[CustomerName]'' (Message t) \<longrightarrow> Body p = Message t)"
proof -
  have b: "Body p = ReplaceAll (Message t) placeholder (Name c)"
    using assms by (rule Body_request)
  have 1: "Body p = Join parts (Name c)"
    if "Message t = Join parts placeholder" "\<forall>x \<in> set parts. \<not> sublist placeholder x"
    for parts
    using that b ReplaceAll_Join [OF placeholder_props, of parts "Name c"] by simp
  have 2: "\<exists>parts. Message t = Join parts placeholder \<and>
                   (\<forall>x \<in> set parts. \<not> sublist placeholder x)"
    using Join_decomposition [OF placeholder_props(1), of "Message t"] by blast
  have 3: "Body p = Message t" if "\<not> sublist placeholder (Message t)"
    using that b by (simp add: ReplaceAll_absent)
  from 1 2 3 show ?thesis unfolding placeholder_def by blast
qed

lemma ex_request_asha:
  "reminder_request ex_host ex_template2 ex_salon2 ex_asha =
     Some (''whatsapp'',
           \<lparr>To = ''whatsapp:+15550001234'', From = ''whatsapp:+14155238886'',
            Body = ''Happy Birthday Asha!''\<rparr>)"
  by (simp add: reminder_request_def Let_def ex_asha_def ex_salon2_def ex_template2_def
        TrimSpace_asha HasPrefix_def fromWhatsApp_ex)

theorem name_substitution_witness:
  "\<exists>p. reminder_request ex_host ex_template2 ex_salon2 ex_asha = Some (''whatsapp'', p) \<and>
       Message ex_template2 = Join [''Happy Birthday '', ''!''] ''[CustomerName]'' \<and>
       Body p = Join [''Happy Birthday '', ''!''] (Name ex_asha) \<and>
       Body p = ''Happy Birthday Asha!''"
proof -
  let ?p = "\<lparr>To = ''whatsapp:+15550001234'', From = ''whatsapp:+14155238886'',
             Body = ''Happy Birthday Asha!''\<rparr>"
  have m: "Message ex_template2 = Join [''Happy Birthday '', ''!''] ''[CustomerName]'' \<and>
           (\<forall>x \<in> set [''Happy Birthday '', ''!'']. \<not> sublist ''[CustomerName]'' x)"
    by (simp add: ex_template2_def sublist_Cons_right)
  from name_substitution [OF ex_request_asha] m
  have "Body ?p = Join [''Happy Birthday '', ''!''] (Name ex_asha)"
    by blast
  with ex_request_asha m show ?thesis by simp
qed

end
